theory Spec2Isabelle
  imports Complex_Main
begin

section \<open>Data model\<close>

text \<open>
  The interface \<open>Product\<close> of the type declarations. A JavaScript \<open>string\<close> is a
  \<^typ>\<open>string\<close> (code units below 256); a \<open>number\<close> is idealised as a \<^typ>\<open>real\<close>.
  No function of the component computes with \<open>Price\<close> or \<open>NumImages\<close>.
\<close>

record Product =
  ProductID :: string
  ProductName :: string
  ProductBrand :: string
  Gender :: string
  Price :: real
  NumImages :: real
  Description :: string
  PrimaryColor :: string

text \<open>
  The interface \<open>RecommendationIds\<close> of \<open>App.tsx\<close>: the shape the component expects of
  the model's answer.
\<close>

record RecommendationIds =
  top_id :: string
  bottom_id :: string
  footwear_id :: string
  accessory_id :: string
  style_tags :: "string list"
  color_palette :: "string list"
  reasoning :: string
  occasion_title :: string

section \<open>Identifier resolution\<close>

text \<open>
  \<open>String(id)\<close> applied to a value that already is a string returns that string.
\<close>

definition String_js :: "string \<Rightarrow> string" where
  "String_js s = s"

text \<open>
  \<open>getProduct\<close>. The imported constant \<open>products\<close> (the catalog) is a parameter.
  \<open>Array.prototype.find\<close> returns the first element satisfying the predicate, or
  \<open>undefined\<close>; \<open>undefined\<close> is \<^const>\<open>None\<close>.
\<close>

definition getProduct :: "Product list \<Rightarrow> string \<Rightarrow> Product option" where
  "getProduct products ident =
     (if ident = ''NONE'' then None
      else find (\<lambda>p. ProductID p = ident \<or> ProductID p = String_js ident) products)"

section \<open>The outfit grid\<close>

text \<open>
  \<open>ProductCard\<close> renders a placeholder (\<open>No {category} selected\<close>) when its
  \<open>product\<close> is \<open>undefined\<close>, and otherwise a card showing the category, brand, name,
  colour and price of the product.
\<close>

datatype card =
  Placeholder string
| Filled string string string string real

definition ProductCard :: "Product option \<Rightarrow> string \<Rightarrow> card" where
  "ProductCard product category =
     (case product of
        None \<Rightarrow> Placeholder category
      | Some p \<Rightarrow> Filled category (ProductBrand p) (ProductName p) (PrimaryColor p) (Price p))"

text \<open>The four slots of the grid, as \<open>App\<close> resolves them: top, bottom, footwear, accessory.\<close>

definition slots :: "Product list \<Rightarrow> RecommendationIds \<Rightarrow> Product option list" where
  "slots products r =
     [getProduct products (top_id r),
      getProduct products (bottom_id r),
      getProduct products (footwear_id r),
      getProduct products (accessory_id r)]"

definition outfit_grid :: "Product list \<Rightarrow> RecommendationIds \<Rightarrow> card list" where
  "outfit_grid products r =
     [ProductCard (getProduct products (top_id r)) ''Top'',
      ProductCard (getProduct products (bottom_id r)) ''Bottom'',
      ProductCard (getProduct products (footwear_id r)) ''Footwear'',
      ProductCard (getProduct products (accessory_id r)) ''Accessory'']"

section \<open>The inventory context\<close>

text \<open>\<open>Array.prototype.join\<close>: the elements, with the separator between neighbours.\<close>

fun join :: "string \<Rightarrow> string list \<Rightarrow> string" where
  "join sep [] = []"
| "join sep [x] = x"
| "join sep (x # y # ys) = x @ sep @ join sep (y # ys)"

definition newline :: string where
  "newline = [CHR 0x0A]"

text \<open>The template literal mapped over the catalog.\<close>

definition inventoryLine :: "Product \<Rightarrow> string" where
  "inventoryLine p =
     ''ID: '' @ ProductID p @ '', Name: '' @ ProductName p @ '', Brand: '' @ ProductBrand p
       @ '', Color: '' @ PrimaryColor p @ '', Desc: '' @ Description p"

definition inventoryContext :: "Product list \<Rightarrow> string" where
  "inventoryContext products = join newline (map inventoryLine products)"

text \<open>
  The lines of a text: the segments between line feeds (what \<open>split('\n')\<close> returns),
  so the empty text has one empty line.
\<close>

fun lines_from :: "string \<Rightarrow> string \<Rightarrow> string list" where
  "lines_from acc [] = [rev acc]"
| "lines_from acc (c # cs) =
     (if c = CHR 0x0A then rev acc # lines_from [] cs else lines_from (c # acc) cs)"

definition lines_of :: "string \<Rightarrow> string list" where
  "lines_of s = lines_from [] s"

text \<open>\<open>t\<close> occurs in a text as a contiguous substring (\<open>text.includes(t)\<close>).\<close>

fun occurs_in :: "string \<Rightarrow> string \<Rightarrow> bool" where
  "occurs_in t [] = (t = [])"
| "occurs_in t (c # cs) = (take (length t) (c # cs) = t \<or> occurs_in t cs)"

section \<open>The request\<close>

text \<open>
  \<open>String.prototype.trim\<close> removes white space and line terminators from both ends;
  among the code units below 256 these are TAB, LF, VT, FF, CR, SP and NBSP.
\<close>

definition is_ws :: "char \<Rightarrow> bool" where
  "is_ws c = (c \<in> {CHR 0x09, CHR 0x0A, CHR 0x0B, CHR 0x0C, CHR 0x0D, CHR 0x20, CHR 0xA0})"

definition trim :: "string \<Rightarrow> string" where
  "trim s = rev (dropWhile is_ws (rev (dropWhile is_ws s)))"

text \<open>The prompt: the instruction text around the query and the inventory context.\<close>

definition prompt :: "string \<Rightarrow> string \<Rightarrow> string" where
  \<open>prompt q inventory =
     newline
     @ ''        You are LuxeMatch, an elite high-fashion AI stylist. '' @ newline
     @ ''        '' @ newline
     @ ''        The user needs an outfit for: '' @ [CHR 0x22] @ q @ [CHR 0x22] @ ''.'' @ newline
     @ ''        '' @ newline
     @ ''        Select the best matching items from the provided INVENTORY list below to create a complete, stylish outfit.'' @ newline
     @ ''        You MUST pick exactly one '' @ [CHR 0x27] @ ''top'' @ [CHR 0x27]
     @ '' (shirt/t-shirt/kurta/dress), one '' @ [CHR 0x27] @ ''bottom'' @ [CHR 0x27]
     @ '' (jeans/trousers/skirt/shorts/leggings), one '' @ [CHR 0x27] @ ''footwear'' @ [CHR 0x27]
     @ '', and one '' @ [CHR 0x27] @ ''accessory'' @ [CHR 0x27]
     @ '' (watch/bag/jewellery/belt) from the inventory.'' @ newline
     @ ''        If the user selects a dress or jumpsuit (which covers both top and bottom), set the ''
     @ [CHR 0x27] @ ''bottom_id'' @ [CHR 0x27] @ '' to '' @ [CHR 0x22] @ ''NONE'' @ [CHR 0x22]
     @ '' or select a complementary legging if appropriate.'' @ newline
     @ ''        '' @ newline
     @ ''        INVENTORY:'' @ newline
     @ ''        '' @ inventory @ newline
     @ newline
     @ ''        Return a JSON object. Do not include markdown code blocks.'' @ newline
     @ ''      ''\<close>

section \<open>The answer of the generation call\<close>

text \<open>
  A value as \<open>JSON.parse\<close> returns it. The properties of an object are an association
  list; a property is read with \<^const>\<open>map_of\<close>.
\<close>

datatype json =
  JNull
| JBool bool
| JNum real
| JStr string
| JArr "json list"
| JObj "(string \<times> json) list"

text \<open>JavaScript truthiness of such a value, as \<open>recommendation && ...\<close> tests it.\<close>

fun truthy :: "json \<Rightarrow> bool" where
  "truthy JNull = False"
| "truthy (JBool b) = b"
| "truthy (JNum x) = (x \<noteq> 0)"
| "truthy (JStr s) = (s \<noteq> [])"
| "truthy (JArr xs) = True"
| "truthy (JObj kvs) = True"

text \<open>
  The type assertion \<open>as RecommendationIds\<close> checks nothing at run time. A value has the
  asserted shape when it is an object whose eight properties have the declared types;
  \<open>as_RecommendationIds\<close> reads such a value and is \<^const>\<open>None\<close> on every other one.
\<close>

fun as_string :: "json \<Rightarrow> string option" where
  "as_string (JStr s) = Some s"
| "as_string _ = None"

fun as_strings :: "json list \<Rightarrow> string list option" where
  "as_strings [] = Some []"
| "as_strings (v # vs) =
     (case as_string v of
        None \<Rightarrow> None
      | Some s \<Rightarrow> (case as_strings vs of None \<Rightarrow> None | Some ss \<Rightarrow> Some (s # ss)))"

fun as_string_array :: "json \<Rightarrow> string list option" where
  "as_string_array (JArr vs) = as_strings vs"
| "as_string_array _ = None"

definition string_prop :: "(string \<times> json) list \<Rightarrow> string \<Rightarrow> string option" where
  "string_prop kvs k = (case map_of kvs k of None \<Rightarrow> None | Some v \<Rightarrow> as_string v)"

definition strings_prop :: "(string \<times> json) list \<Rightarrow> string \<Rightarrow> string list option" where
  "strings_prop kvs k = (case map_of kvs k of None \<Rightarrow> None | Some v \<Rightarrow> as_string_array v)"

fun as_RecommendationIds :: "json \<Rightarrow> RecommendationIds option" where
  "as_RecommendationIds (JObj kvs) =
     Option.bind (string_prop kvs ''top_id'') (\<lambda>t.
     Option.bind (string_prop kvs ''bottom_id'') (\<lambda>b.
     Option.bind (string_prop kvs ''footwear_id'') (\<lambda>f.
     Option.bind (string_prop kvs ''accessory_id'') (\<lambda>a.
     Option.bind (strings_prop kvs ''style_tags'') (\<lambda>st.
     Option.bind (strings_prop kvs ''color_palette'') (\<lambda>cp.
     Option.bind (string_prop kvs ''reasoning'') (\<lambda>re.
     Option.bind (string_prop kvs ''occasion_title'') (\<lambda>oc.
       Some \<lparr>top_id = t, bottom_id = b, footwear_id = f, accessory_id = a,
             style_tags = st, color_palette = cp, reasoning = re,
             occasion_title = oc\<rparr>))))))))"
| "as_RecommendationIds _ = None"

text \<open>
  What the awaited call and the parse of its text come to, for one invocation:
  the call throws; it returns a response whose \<open>text\<close> is \<open>undefined\<close> or empty; it returns a text on which \<open>JSON.parse\<close> throws; or it returns
  a text that \<open>JSON.parse\<close> turns into a value.
\<close>

datatype outcome =
  Rejected
| NoText
| NotJSON
| Parsed json

section \<open>The component state and \<open>handleStyleMe\<close>\<close>

text \<open>
  The four state variables of \<open>App\<close>, and two ghost fields that record its effects:
  \<open>requests\<close>, the prompt of every \<open>generateContent\<close> call issued so far, and
  \<open>in_flight\<close>, the number of invocations of \<open>handleStyleMe\<close> suspended at the
  \<open>await\<close>. \<open>recommendation\<close> is \<open>null\<close> (\<^const>\<open>JNull\<close>) or the parsed value.
\<close>

record app_state =
  query :: string
  loading :: bool
  recommendation :: json
  error :: "string option"
  requests :: "string list"
  in_flight :: nat

definition initial :: app_state where
  "initial = \<lparr>query = [], loading = False, recommendation = JNull, error = None,
              requests = [], in_flight = 0\<rparr>"

definition busy_message :: string where
  "busy_message = ''Our stylists are currently busy (AI Error). Please try again.''"

text \<open>
  \<open>handleStyleMe\<close> up to the \<open>await\<close>: the guard, the three resets, the construction of
  the client, the request. \<open>new GoogleGenAI({apiKey: process.env.API_KEY})\<close> stands inside
  the \<open>try\<close>; whether it returns or throws is fixed with the build, like the catalog, and
  is the parameter \<open>client_ok\<close>. When it throws, \<open>catch\<close> and \<open>finally\<close> run at once:
  the error message is set, no request is issued and nothing is suspended.
\<close>

definition handleStyleMe_begin :: "bool \<Rightarrow> Product list \<Rightarrow> app_state \<Rightarrow> app_state" where
  "handleStyleMe_begin client_ok products s =
     (if trim (query s) = [] then s
      else if \<not> client_ok
        then s\<lparr>loading := False, error := Some busy_message, recommendation := JNull\<rparr>
      else s\<lparr>loading := True, error := None, recommendation := JNull,
             requests := requests s @ [prompt (query s) (inventoryContext products)],
             in_flight := Suc (in_flight s)\<rparr>)"

text \<open>\<open>handleStyleMe\<close> from the \<open>await\<close> on: the \<open>if\<close>, the \<open>catch\<close>, the \<open>finally\<close>.\<close>

definition handleStyleMe_resume :: "outcome \<Rightarrow> app_state \<Rightarrow> app_state" where
  "handleStyleMe_resume oc s =
     (let s' = (case oc of
                  Rejected \<Rightarrow> s\<lparr>error := Some busy_message\<rparr>
                | NoText \<Rightarrow> s
                | NotJSON \<Rightarrow> s\<lparr>error := Some busy_message\<rparr>
                | Parsed v \<Rightarrow> s\<lparr>recommendation := v\<rparr>)
      in s'\<lparr>loading := False, in_flight := in_flight s - 1\<rparr>)"

text \<open>One invocation run from its call to its end, nothing else happening meanwhile.\<close>

definition handleStyleMe :: "bool \<Rightarrow> Product list \<Rightarrow> outcome \<Rightarrow> app_state \<Rightarrow> app_state" where
  "handleStyleMe client_ok products oc s =
     (if trim (query s) = [] \<or> \<not> client_ok then handleStyleMe_begin client_ok products s
      else handleStyleMe_resume oc (handleStyleMe_begin client_ok products s))"

section \<open>The events of a session\<close>

text \<open>
  The input's \<open>onChange\<close> and \<open>onKeyDown\<close>, a click on the button, and the settling of
  one suspended invocation. The button is \<open>disabled\<close> when \<open>loading || !query\<close>, and a
  disabled button fires no click.
\<close>

datatype event =
  Change string
| KeyDown string
| Click
| Settle outcome

definition step :: "bool \<Rightarrow> Product list \<Rightarrow> app_state \<Rightarrow> event \<Rightarrow> app_state" where
  "step client_ok products s ev =
     (case ev of
        Change q \<Rightarrow> s\<lparr>query := q\<rparr>
      | KeyDown k \<Rightarrow> (if k = ''Enter'' then handleStyleMe_begin client_ok products s else s)
      | Click \<Rightarrow>
          (if loading s \<or> query s = [] then s else handleStyleMe_begin client_ok products s)
      | Settle oc \<Rightarrow> (if in_flight s = 0 then s else handleStyleMe_resume oc s))"

definition run :: "bool \<Rightarrow> Product list \<Rightarrow> app_state \<Rightarrow> event list \<Rightarrow> app_state" where
  "run client_ok products s evs = foldl (step client_ok products) s evs"

section \<open>Rendering the style tags\<close>

text \<open>
  The results section is rendered when \<open>recommendation\<close> is truthy. Its first expression
  that can throw is \<open>recommendation.style_tags.map(...)\<close>: among the values that
  \<open>JSON.parse\<close> returns only an array has a \<open>map\<close> method, and reading \<open>style_tags\<close>
  from a value without that property gives \<open>undefined\<close>, so the call throws a
  \<open>TypeError\<close> unless \<open>style_tags\<close> is an array. No error boundary catches it.
\<close>

datatype js_error = TypeError

definition style_tags_map :: "json \<Rightarrow> js_error + json list" where
  "style_tags_map v =
     (case v of
        JObj kvs \<Rightarrow>
          (case map_of kvs ''style_tags'' of
             Some (JArr tags) \<Rightarrow> Inr tags
           | _ \<Rightarrow> Inl TypeError)
      | _ \<Rightarrow> Inl TypeError)"

section \<open>Sample data\<close>

text \<open>A sample product with the given identifier and name, and a four-product catalog.\<close>

definition example_product :: "string \<Rightarrow> string \<Rightarrow> Product" where
  "example_product pid name =
     \<lparr>ProductID = pid, ProductName = name, ProductBrand = ''Luxe'', Gender = ''Women'',
      Price = 1999, NumImages = 5, Description = ''A wardrobe staple'',
      PrimaryColor = ''Black''\<rparr>"

definition example_catalog :: "Product list" where
  "example_catalog =
     [example_product ''A1'' ''Shirt'', example_product ''B2'' ''Jeans'',
      example_product ''C3'' ''Loafers'', example_product ''D4'' ''Watch'']"

text \<open>An answer of the declared shape, and one whose \<open>style_tags\<close> is a single string.\<close>

definition wellformed_answer :: json where
  "wellformed_answer =
     JObj [(''top_id'', JStr ''A1''), (''bottom_id'', JStr ''NONE''),
           (''footwear_id'', JStr ''C3''), (''accessory_id'', JStr ''D4''),
           (''style_tags'', JArr [JStr ''chic'']), (''color_palette'', JArr [JStr ''black'']),
           (''reasoning'', JStr ''x''), (''occasion_title'', JStr ''Y'')]"

definition malformed_answer :: json where
  "malformed_answer =
     JObj [(''top_id'', JStr ''A1''), (''bottom_id'', JStr ''NONE''),
           (''footwear_id'', JStr ''C3''), (''accessory_id'', JStr ''D4''),
           (''style_tags'', JStr ''chic''), (''color_palette'', JArr [JStr ''black'']),
           (''reasoning'', JStr ''x''), (''occasion_title'', JStr ''Y'')]"

text \<open>No serialized field of the product contains a line feed.\<close>

definition no_line_break :: "Product \<Rightarrow> bool" where
  "no_line_break p =
     (CHR 0x0A \<notin> set (ProductID p) \<and> CHR 0x0A \<notin> set (ProductName p)
      \<and> CHR 0x0A \<notin> set (ProductBrand p) \<and> CHR 0x0A \<notin> set (PrimaryColor p)
      \<and> CHR 0x0A \<notin> set (Description p))"

section \<open>Lookup in the catalog\<close>

lemma getProduct_find:
  "ident \<noteq> ''NONE'' \<Longrightarrow> getProduct ps ident = find (\<lambda>p. ProductID p = ident) ps"
  by (simp add: getProduct_def String_js_def)

lemma find_by_id_distinct:
  "distinct (map ProductID ps) \<Longrightarrow> P \<in> set ps \<Longrightarrow>
   find (\<lambda>p. ProductID p = ProductID P) ps = Some P"
  by (induction ps) auto

lemma find_by_id_None:
  "(find (\<lambda>p. ProductID p = ident) ps = None) = (\<forall>p\<in>set ps. ProductID p \<noteq> ident)"
  by (auto simp add: find_None_iff)

lemma getProduct_sentinel: "getProduct ps ''NONE'' = None"
  by (simp add: getProduct_def)

lemma getProduct_present:
  "distinct (map ProductID ps) \<Longrightarrow> P \<in> set ps \<Longrightarrow> ProductID P \<noteq> ''NONE'' \<Longrightarrow>
   getProduct ps (ProductID P) = Some P"
  by (simp add: getProduct_find find_by_id_distinct)

lemma getProduct_absent:
  "\<forall>p\<in>set ps. ProductID p \<noteq> ident \<Longrightarrow> getProduct ps ident = None"
  by (cases "ident = ''NONE''") (simp_all add: getProduct_sentinel getProduct_find find_by_id_None)

text \<open>
  C1 (as amended). In a catalog with unique identifiers, resolving the identifier of a
  product of the catalog yields exactly that product, provided the identifier is not the
  string \<open>NONE\<close>; resolving a string that is the identifier of no product yields
  \<open>undefined\<close>. The result depends on the identifier and the catalog only.
\<close>

theorem getProduct_resolves:
  assumes "distinct (map ProductID ps)"
  shows "(P \<in> set ps \<and> ProductID P \<noteq> ''NONE'' \<longrightarrow> getProduct ps (ProductID P) = Some P)
       \<and> ((\<forall>p\<in>set ps. ProductID p \<noteq> ident) \<longrightarrow> getProduct ps ident = None)"
  using assms by (simp add: getProduct_present getProduct_absent)

theorem getProduct_resolves_witness:
  "distinct (map ProductID [example_product ''A1'' ''Shirt'', example_product ''B2'' ''Jeans''])
   \<and> getProduct [example_product ''A1'' ''Shirt'', example_product ''B2'' ''Jeans''] ''B2''
       = Some (example_product ''B2'' ''Jeans'')
   \<and> getProduct [example_product ''A1'' ''Shirt'', example_product ''B2'' ''Jeans''] ''Z9'' = None"
  using getProduct_resolves [of "[example_product ''A1'' ''Shirt'', example_product ''B2'' ''Jeans'']"
      "example_product ''B2'' ''Jeans''" "''Z9''"]
  by (simp add: example_product_def)

text \<open>
  A product whose identifier is the string \<open>NONE\<close> is never the result of resolving its
  own identifier, although the identifiers of the catalog are unique.
\<close>

theorem getProduct_sentinel_id_counterexample:
  "distinct (map ProductID [example_product ''NONE'' ''Scarf''])
   \<and> example_product ''NONE'' ''Scarf'' \<in> set [example_product ''NONE'' ''Scarf'']
   \<and> getProduct [example_product ''NONE'' ''Scarf''] (ProductID (example_product ''NONE'' ''Scarf''))
       \<noteq> Some (example_product ''NONE'' ''Scarf'')"
  by (simp add: getProduct_def example_product_def)

text \<open>
  C2 (as amended). Only the exact string \<open>NONE\<close> is the sentinel: it resolves to
  \<open>undefined\<close> in every catalog. Every other string, the casings \<open>none\<close>, \<open>NoNe\<close> and
  \<open>None\<close> among them, is looked up like any identifier and resolves to \<open>undefined\<close>
  exactly when no product has it as identifier. A slot left empty by a failed lookup holds
  the same value as one left empty by the sentinel, and \<open>ProductCard\<close> renders the two
  alike.
\<close>

theorem sentinel_exact_match:
  "getProduct ps ''NONE'' = None
   \<and> (ident \<noteq> ''NONE'' \<longrightarrow>
        (getProduct ps ident = None) = (\<forall>p\<in>set ps. ProductID p \<noteq> ident))
   \<and> ((\<forall>p\<in>set ps. ProductID p \<noteq> ident) \<longrightarrow>
        getProduct ps ident = getProduct ps ''NONE''
        \<and> ProductCard (getProduct ps ident) category
            = ProductCard (getProduct ps ''NONE'') category)"
proof -
  have b: "ident \<noteq> ''NONE'' \<Longrightarrow>
      (getProduct ps ident = None) = (\<forall>p\<in>set ps. ProductID p \<noteq> ident)"
    by (simp add: getProduct_find find_by_id_None)
  have c: "\<forall>p\<in>set ps. ProductID p \<noteq> ident \<Longrightarrow> getProduct ps ident = None"
    by (rule getProduct_absent)
  show ?thesis using b c by (simp add: getProduct_sentinel)
qed

theorem sentinel_exact_match_witness:
  "getProduct [example_product ''A1'' ''Shirt''] ''NONE'' = None
   \<and> getProduct [example_product ''A1'' ''Shirt''] ''none'' = None
   \<and> ProductCard (getProduct [example_product ''A1'' ''Shirt''] ''none'') ''Bottom''
       = ProductCard (getProduct [example_product ''A1'' ''Shirt''] ''NONE'') ''Bottom''"
  using sentinel_exact_match [of "[example_product ''A1'' ''Shirt'']" "''none''" "''Bottom''"]
  by (simp add: example_product_def)

text \<open>
  With a product whose identifier is \<open>none\<close> in the catalog, a \<open>bottom_id\<close> of \<open>none\<close>
  fills the bottom slot with that product.
\<close>

theorem sentinel_casing_counterexample:
  "slots [example_product ''none'' ''Leggings'']
     \<lparr>top_id = ''A1'', bottom_id = ''none'', footwear_id = ''C3'', accessory_id = ''D4'',
      style_tags = [''chic''], color_palette = [''black''], reasoning = ''x'',
      occasion_title = ''Y''\<rparr> ! 1
   = Some (example_product ''none'' ''Leggings'')"
  by (simp add: slots_def getProduct_def String_js_def example_product_def)

section \<open>Answers of the generation call\<close>

lemma trim_party: "trim ''party'' = ''party''"
  by (simp add: trim_def is_ws_def)

lemma trim_spaces: "trim ''   '' = []"
  by (simp add: trim_def is_ws_def)

lemma handleStyleMe_fields:
  assumes "trim (query s) \<noteq> []"
  shows "loading (handleStyleMe True ps oc s) = False"
    and "requests (handleStyleMe True ps oc s)
           = requests s @ [prompt (query s) (inventoryContext ps)]"
    and "in_flight (handleStyleMe True ps oc s) = in_flight s"
    and "query (handleStyleMe True ps oc s) = query s"
    and "error (handleStyleMe True ps oc s) =
           (case oc of Rejected \<Rightarrow> Some busy_message | NotJSON \<Rightarrow> Some busy_message | _ \<Rightarrow> None)"
    and "recommendation (handleStyleMe True ps oc s) = (case oc of Parsed v \<Rightarrow> v | _ \<Rightarrow> JNull)"
  using assms
  by (simp_all add: handleStyleMe_def handleStyleMe_begin_def handleStyleMe_resume_def
      split: outcome.splits)

text \<open>
  When the client cannot be constructed, the invocation ends at once with the error
  message, and no request is issued.
\<close>

lemma handleStyleMe_no_client:
  "trim (query s) \<noteq> [] \<Longrightarrow>
   handleStyleMe False ps oc s
     = s\<lparr>loading := False, error := Some busy_message, recommendation := JNull\<rparr>"
  by (simp add: handleStyleMe_def handleStyleMe_begin_def)

text \<open>The example of the specification: the well-formed answer and the slots it resolves to.\<close>

lemma wellformed_answer_shape:
  "as_RecommendationIds wellformed_answer =
     Some \<lparr>top_id = ''A1'', bottom_id = ''NONE'', footwear_id = ''C3'', accessory_id = ''D4'',
           style_tags = [''chic''], color_palette = [''black''], reasoning = ''x'',
           occasion_title = ''Y''\<rparr>"
  by (simp add: wellformed_answer_def string_prop_def strings_prop_def)

lemma wellformed_answer_slots:
  "slots example_catalog
     \<lparr>top_id = ''A1'', bottom_id = ''NONE'', footwear_id = ''C3'', accessory_id = ''D4'',
      style_tags = [''chic''], color_palette = [''black''], reasoning = ''x'',
      occasion_title = ''Y''\<rparr>
   = [Some (example_product ''A1'' ''Shirt''), None,
      Some (example_product ''C3'' ''Loafers''), Some (example_product ''D4'' ''Watch'')]"
  by (simp add: slots_def getProduct_def String_js_def example_catalog_def example_product_def)

text \<open>
  The only check on the answer is \<open>JSON.parse\<close>. When the text does not parse, the
  \<open>catch\<close> sets the error message and no recommendation is stored. When it parses, the
  parsed value is stored as the recommendation, and no error is set.
\<close>

lemma not_json_sets_error:
  "trim (query s) \<noteq> [] \<Longrightarrow>
   error (handleStyleMe True ps NotJSON s) = Some busy_message
   \<and> recommendation (handleStyleMe True ps NotJSON s) = JNull"
  by (simp add: handleStyleMe_fields)

lemma parsed_value_stored:
  "trim (query s) \<noteq> [] \<Longrightarrow>
   recommendation (handleStyleMe True ps (Parsed v) s) = v
   \<and> error (handleStyleMe True ps (Parsed v) s) = None"
  by (simp add: handleStyleMe_fields)

text \<open>
  C3. At the query \<open>party\<close>, an answer whose \<open>style_tags\<close> is a single string does not
  have the shape that \<open>as RecommendationIds\<close> asserts. The invocation stores it as the
  recommendation all the same and sets no error; the stored value is truthy, so the
  results section is rendered from it, and \<open>recommendation.style_tags.map\<close> throws a
  \<open>TypeError\<close> there.
\<close>

theorem malformed_answer_stored_render_throws:
  "as_RecommendationIds malformed_answer = None
   \<and> recommendation (handleStyleMe True example_catalog (Parsed malformed_answer)
        (initial\<lparr>query := ''party''\<rparr>)) = malformed_answer
   \<and> error (handleStyleMe True example_catalog (Parsed malformed_answer)
        (initial\<lparr>query := ''party''\<rparr>)) = None
   \<and> truthy malformed_answer
   \<and> style_tags_map malformed_answer = Inl TypeError"
proof -
  have "as_RecommendationIds malformed_answer = None"
    by (simp add: malformed_answer_def string_prop_def strings_prop_def)
  moreover have "truthy malformed_answer"
    by (simp add: malformed_answer_def)
  moreover have "style_tags_map malformed_answer = Inl TypeError"
    by (simp add: malformed_answer_def style_tags_map_def)
  ultimately show ?thesis
    by (simp add: handleStyleMe_fields trim_party)
qed

text \<open>A value of the asserted shape has an array of style tags, and the call returns.\<close>

lemma wellformed_answer_renders:
  "style_tags_map wellformed_answer = Inr [JStr ''chic'']"
  by (simp add: wellformed_answer_def style_tags_map_def)

section \<open>Resolving the four slots\<close>




section \<open>Failures of the generation call\<close>

text \<open>
  When the call throws, the invocation sets the error message, stores no recommendation,
  and has issued exactly one request.
\<close>

lemma rejected_sets_error:
  "trim (query s) \<noteq> [] \<Longrightarrow>
   error (handleStyleMe True ps Rejected s) = Some busy_message
   \<and> recommendation (handleStyleMe True ps Rejected s) = JNull
   \<and> length (requests (handleStyleMe True ps Rejected s)) = Suc (length (requests s))"
  by (simp add: handleStyleMe_fields)

text \<open>
  C5. At the query \<open>party\<close>, when the call returns a response without text, the
  invocation ends with no error message and no recommendation: nothing tells the user
  that the request failed. One request was issued.
\<close>

theorem no_text_is_silent:
  "error (handleStyleMe True example_catalog NoText (initial\<lparr>query := ''party''\<rparr>)) = None
   \<and> recommendation (handleStyleMe True example_catalog NoText (initial\<lparr>query := ''party''\<rparr>)) = JNull
   \<and> loading (handleStyleMe True example_catalog NoText (initial\<lparr>query := ''party''\<rparr>)) = False
   \<and> length (requests (handleStyleMe True example_catalog NoText (initial\<lparr>query := ''party''\<rparr>))) = 1"
  by (simp add: handleStyleMe_fields trim_party initial_def)

section \<open>Blank queries\<close>

text \<open>
  C6 (as amended). When the query is empty or consists of white space only,
  \<open>handleStyleMe\<close> returns at its guard: the state is left as it was, so no request is
  issued and neither the error message nor the recommendation changes. This holds for the
  Enter key and for a click on the button alike.
\<close>

theorem blank_query_returns:
  assumes "trim (query s) = []"
  shows "handleStyleMe ok ps oc s = s
       \<and> handleStyleMe_begin ok ps s = s
       \<and> step ok ps s (KeyDown ''Enter'') = s
       \<and> step ok ps s Click = s
       \<and> requests (handleStyleMe ok ps oc s) = requests s
       \<and> error (handleStyleMe ok ps oc s) = error s"
  using assms by (simp add: handleStyleMe_def handleStyleMe_begin_def step_def)

theorem blank_query_returns_witness:
  "trim (query (initial\<lparr>query := ''   ''\<rparr>)) = []
   \<and> handleStyleMe True example_catalog Rejected (initial\<lparr>query := ''   ''\<rparr>)
       = initial\<lparr>query := ''   ''\<rparr>
   \<and> requests (handleStyleMe True example_catalog Rejected (initial\<lparr>query := ''   ''\<rparr>)) = []"
  using blank_query_returns [where s = "initial\<lparr>query := ''   ''\<rparr>" and ok = True
      and ps = example_catalog and oc = Rejected]
  by (simp add: trim_spaces initial_def)

text \<open>A query of three spaces is blank, and invoking with it leaves the error state null.\<close>

theorem blank_query_no_failure_counterexample:
  "trim (query (initial\<lparr>query := ''   ''\<rparr>)) = []
   \<and> error (handleStyleMe True example_catalog Rejected (initial\<lparr>query := ''   ''\<rparr>)) = None"
  by (simp add: handleStyleMe_def handleStyleMe_begin_def trim_spaces initial_def)

section \<open>Overlapping invocations\<close>

text \<open>The button ignores a click while a request is outstanding.\<close>

lemma click_ignored_while_loading: "loading s \<Longrightarrow> step ok ps s Click = s"
  by (simp add: step_def)

text \<open>
  C7. After the query \<open>party\<close> is typed and Enter is pressed, the busy flag is set and
  one invocation is in flight. A second Enter starts a second invocation: two requests
  have been issued and two invocations are in flight. A click in the same state is
  ignored.
\<close>

theorem enter_while_loading_starts_second:
  "loading (run True example_catalog initial [Change ''party'', KeyDown ''Enter''])
   \<and> in_flight (run True example_catalog initial [Change ''party'', KeyDown ''Enter'']) = 1
   \<and> in_flight (run True example_catalog initial
        [Change ''party'', KeyDown ''Enter'', KeyDown ''Enter'']) = 2
   \<and> length (requests (run True example_catalog initial
        [Change ''party'', KeyDown ''Enter'', KeyDown ''Enter''])) = 2
   \<and> in_flight (run True example_catalog initial
        [Change ''party'', KeyDown ''Enter'', Click]) = 1"
  by (simp add: run_def step_def handleStyleMe_begin_def trim_party initial_def)

section \<open>The inventory context as lines\<close>

lemma lines_from_no_break:
  "CHR 0x0A \<notin> set s \<Longrightarrow> lines_from acc (s @ t) = lines_from (rev s @ acc) t"
  by (induction s arbitrary: acc) auto

lemma lines_from_join:
  "\<forall>x\<in>set (x # xs). CHR 0x0A \<notin> set x \<Longrightarrow>
   lines_from acc (join newline (x # xs)) = (rev acc @ x) # xs"
proof (induction xs arbitrary: x acc)
  case Nil
  then show ?case using lines_from_no_break [of x acc "[]"] by simp
next
  case (Cons y ys)
  have x: "CHR 0x0A \<notin> set x" using Cons.prems by simp
  have rest: "lines_from [] (join newline (y # ys)) = y # ys"
    using Cons.IH [of y "[]"] Cons.prems by simp
  have "lines_from acc (join newline (x # y # ys))
        = lines_from (rev x @ acc) (newline @ join newline (y # ys))"
    using lines_from_no_break [OF x] by simp
  also have "\<dots> = (rev acc @ x) # lines_from [] (join newline (y # ys))"
    by (simp add: newline_def)
  finally show ?case using rest by simp
qed

lemma lines_of_join:
  "xs \<noteq> [] \<Longrightarrow> \<forall>x\<in>set xs. CHR 0x0A \<notin> set x \<Longrightarrow> lines_of (join newline xs) = xs"
  using lines_from_join [of "hd xs" "tl xs" "[]"] by (cases xs) (simp_all add: lines_of_def)

lemma inventoryLine_no_break:
  "no_line_break p \<Longrightarrow> CHR 0x0A \<notin> set (inventoryLine p)"
  by (simp add: no_line_break_def inventoryLine_def)

lemma occurs_in_prefix: "occurs_in t (t @ post)"
proof (cases "t @ post")
  case Nil
  then show ?thesis by simp
next
  case (Cons c cs)
  have "take (length t) (t @ post) = t" by simp
  then have "take (length t) (c # cs) = t" using Cons by simp
  then have "occurs_in t (c # cs)" by simp
  then show ?thesis using Cons by simp
qed

lemma occurs_in_append: "occurs_in t (pre @ t @ post)"
  by (induction pre) (simp_all add: occurs_in_prefix)

lemma inventoryLine_fields:
  "occurs_in (ProductID p) (inventoryLine p)"
  "occurs_in (ProductName p) (inventoryLine p)"
  "occurs_in (ProductBrand p) (inventoryLine p)"
  "occurs_in (PrimaryColor p) (inventoryLine p)"
  "occurs_in (Description p) (inventoryLine p)"
proof -
  show "occurs_in (ProductID p) (inventoryLine p)"
    unfolding inventoryLine_def by (rule occurs_in_append)
  show "occurs_in (ProductName p) (inventoryLine p)"
    using occurs_in_append [of "ProductName p" "''ID: '' @ ProductID p @ '', Name: ''"
        "'', Brand: '' @ ProductBrand p @ '', Color: '' @ PrimaryColor p
           @ '', Desc: '' @ Description p"]
    by (simp add: inventoryLine_def)
  show "occurs_in (ProductBrand p) (inventoryLine p)"
    using occurs_in_append [of "ProductBrand p"
        "''ID: '' @ ProductID p @ '', Name: '' @ ProductName p @ '', Brand: ''"
        "'', Color: '' @ PrimaryColor p @ '', Desc: '' @ Description p"]
    by (simp add: inventoryLine_def)
  show "occurs_in (PrimaryColor p) (inventoryLine p)"
    using occurs_in_append [of "PrimaryColor p"
        "''ID: '' @ ProductID p @ '', Name: '' @ ProductName p @ '', Brand: ''
           @ ProductBrand p @ '', Color: ''"
        "'', Desc: '' @ Description p"]
    by (simp add: inventoryLine_def)
  show "occurs_in (Description p) (inventoryLine p)"
    using occurs_in_append [of "Description p"
        "''ID: '' @ ProductID p @ '', Name: '' @ ProductName p @ '', Brand: ''
           @ ProductBrand p @ '', Color: '' @ PrimaryColor p @ '', Desc: ''"
        "[]"]
    by (simp add: inventoryLine_def)
qed

lemma lines_from_break:
  "lines_from acc (s @ CHR 0x0A # t) = lines_from acc s @ lines_from [] t"
  by (induction s arbitrary: acc) simp_all

lemma lines_of_join_concat:
  "lines_of (join newline (x # xs)) = concat (map lines_of (x # xs))"
proof (induction xs arbitrary: x)
  case Nil
  show ?case by simp
next
  case (Cons y ys)
  have "lines_of (join newline (x # y # ys))
        = lines_from [] (x @ CHR 0x0A # join newline (y # ys))"
    by (simp add: lines_of_def newline_def)
  also have "\<dots> = lines_of x @ lines_of (join newline (y # ys))"
    by (simp add: lines_from_break lines_of_def)
  finally show ?case using Cons.IH [of y] by simp
qed

lemma inventoryContext_unfold:
  "inventoryContext [] = []"
  "inventoryContext [p] = inventoryLine p"
  "inventoryContext (p # q # ps) = inventoryLine p @ newline @ inventoryContext (q # ps)"
  by (simp_all add: inventoryContext_def)

text \<open>
  C8 (as amended). For every catalog the inventory context is the entries of its
  products, one for each, in catalog order, with a line feed between neighbours: it is
  empty for the empty catalog, the entry of the product for a catalog of one, and the
  entry of the first product, a line feed and the inventory context of the rest
  otherwise. Its lines are the lines of the entries, in that order. When no serialized
  field of any product contains a line feed, the lines are exactly the entries, one line
  for each product. The entry of a product contains its identifier, name, brand, colour
  and description, and is the same whatever its price and image count are. The
  serialization is total.
\<close>

theorem inventoryContext_lines:
  "inventoryContext [] = []
   \<and> inventoryContext [p] = inventoryLine p
   \<and> inventoryContext (p # q # qs) = inventoryLine p @ newline @ inventoryContext (q # qs)
   \<and> inventoryContext ps = join newline (map inventoryLine ps)
   \<and> (ps \<noteq> [] \<longrightarrow>
        lines_of (inventoryContext ps) = concat (map (\<lambda>p. lines_of (inventoryLine p)) ps))
   \<and> (ps \<noteq> [] \<and> (\<forall>p\<in>set ps. no_line_break p) \<longrightarrow>
        lines_of (inventoryContext ps) = map inventoryLine ps)
   \<and> occurs_in (ProductID p) (inventoryLine p)
   \<and> occurs_in (ProductName p) (inventoryLine p)
   \<and> occurs_in (ProductBrand p) (inventoryLine p)
   \<and> occurs_in (PrimaryColor p) (inventoryLine p)
   \<and> occurs_in (Description p) (inventoryLine p)
   \<and> inventoryLine (p\<lparr>Price := x, NumImages := n\<rparr>) = inventoryLine p"
proof -
  have all: "lines_of (inventoryContext ps) = concat (map (\<lambda>p. lines_of (inventoryLine p)) ps)"
    if ne: "ps \<noteq> []"
  proof -
    obtain a as where "ps = a # as" using ne by (cases ps) auto
    then show ?thesis
      using lines_of_join_concat [of "inventoryLine a" "map inventoryLine as"]
      by (simp add: inventoryContext_def comp_def)
  qed
  have lines: "lines_of (inventoryContext ps) = map inventoryLine ps"
    if "ps \<noteq> []" and "\<forall>p\<in>set ps. no_line_break p"
    unfolding inventoryContext_def
    using that by (intro lines_of_join) (auto simp: inventoryLine_no_break)
  have indep: "inventoryLine (p\<lparr>Price := x, NumImages := n\<rparr>) = inventoryLine p"
    by (simp add: inventoryLine_def)
  have ctx: "inventoryContext ps = join newline (map inventoryLine ps)"
    by (simp add: inventoryContext_def)
  show ?thesis
    using all lines indep inventoryLine_fields [of p] ctx
    by (simp add: inventoryContext_unfold)
qed

theorem inventoryContext_lines_witness:
  "example_catalog \<noteq> [] \<and> list_all no_line_break example_catalog
   \<and> lines_of (inventoryContext example_catalog) = map inventoryLine example_catalog"
proof -
  have ne: "example_catalog \<noteq> []"
    by (simp add: example_catalog_def)
  have nb: "\<forall>p\<in>set example_catalog. no_line_break p"
    by (simp add: example_catalog_def example_product_def no_line_break_def)
  have "example_catalog \<noteq> [] \<and> (\<forall>p\<in>set example_catalog. no_line_break p) \<longrightarrow>
      lines_of (inventoryContext example_catalog) = map inventoryLine example_catalog"
    using inventoryContext_lines [where ps = example_catalog] by blast
  then show ?thesis using ne nb by (simp add: list_all_iff)
qed

text \<open>A catalog of one product whose description has a line feed serializes to two lines.\<close>

theorem inventoryContext_line_break_counterexample:
  "length (lines_of (inventoryContext
      [(example_product ''A1'' ''Shirt'')\<lparr>Description := ''Soft'' @ newline @ ''cotton''\<rparr>])) = 2"
  by (simp add: inventoryContext_def inventoryLine_def example_product_def lines_of_def newline_def)

section \<open>The sentinel in every slot\<close>

text \<open>
  C9. The sentinel check is the first statement of \<open>getProduct\<close> and so applies to each
  of the four slots: in every catalog, also one that has a product with the identifier
  \<open>NONE\<close>, an identifier equal to \<open>NONE\<close> leaves the top, bottom, footwear or
  accessory slot empty.
\<close>

theorem sentinel_every_slot:
  "getProduct ps ''NONE'' = None
   \<and> slots ps (r\<lparr>top_id := ''NONE''\<rparr>) ! 0 = None
   \<and> slots ps (r\<lparr>bottom_id := ''NONE''\<rparr>) ! 1 = None
   \<and> slots ps (r\<lparr>footwear_id := ''NONE''\<rparr>) ! 2 = None
   \<and> slots ps (r\<lparr>accessory_id := ''NONE''\<rparr>) ! 3 = None"
  by (simp add: getProduct_def slots_def)

section \<open>Error message and recommendation\<close>

text \<open>
  An invocation that runs from its call to its end with no other invocation in between
  never leaves both an error message and a recommendation.
\<close>

lemma handleStyleMe_exclusive:
  "trim (query s) \<noteq> [] \<Longrightarrow>
   \<not> (error (handleStyleMe ok ps oc s) \<noteq> None
      \<and> truthy (recommendation (handleStyleMe ok ps oc s)))"
proof (cases ok)
  case True
  assume "trim (query s) \<noteq> []"
  then show ?thesis using True by (cases oc) (simp_all add: handleStyleMe_fields)
next
  case False
  assume "trim (query s) \<noteq> []"
  then show ?thesis using False by (simp add: handleStyleMe_no_client)
qed

text \<open>
  C10. Two invocations started by two presses of Enter overlap. When the first settles
  with a well-formed answer and the second with a thrown error, every invocation has
  completed, and the state holds the error message and a recommendation at once.
\<close>

theorem overlap_shows_error_and_recommendation:
  "error (run True example_catalog initial
      [Change ''party'', KeyDown ''Enter'', KeyDown ''Enter'',
       Settle (Parsed wellformed_answer), Settle Rejected]) = Some busy_message
   \<and> recommendation (run True example_catalog initial
      [Change ''party'', KeyDown ''Enter'', KeyDown ''Enter'',
       Settle (Parsed wellformed_answer), Settle Rejected]) = wellformed_answer
   \<and> truthy wellformed_answer
   \<and> in_flight (run True example_catalog initial
      [Change ''party'', KeyDown ''Enter'', KeyDown ''Enter'',
       Settle (Parsed wellformed_answer), Settle Rejected]) = 0"
  by (simp add: run_def step_def handleStyleMe_begin_def handleStyleMe_resume_def trim_party
      initial_def wellformed_answer_def)

end
